theory Spec2Isabelle
  imports Main
begin

section \<open>The user service: data model\<close>

text \<open>
  The service is three layers over a relational store: the repository
  (\<^verbatim>\<open>repository/user_repo.go\<close>) sends SQL through Go's \<^verbatim>\<open>database/sql\<close>, the usecase
  (\<^verbatim>\<open>usecase/user_usecase.go\<close>) forwards to it, and the controller
  (\<^verbatim>\<open>controller/user_controller.go\<close>) turns the results into HTTP replies. Each Go function
  is a HOL function of the same name; the store is an explicit state that every function
  takes and returns; Go's result pairs \<^verbatim>\<open>(value, error)\<close> are pairs whose second
  component is \<open>None\<close> for a nil error.
\<close>

subsection \<open>model.User and model.Response\<close>

record User =
  ID :: int
  Name :: string
  Email :: string
  ImgURL :: string

text \<open>Go's zero value \<^verbatim>\<open>model.User{}\<close>.\<close>

definition zero_User :: User where
  "zero_User = \<lparr>ID = 0, Name = [], Email = [], ImgURL = []\<rparr>"

text \<open>
  Modelled from the spec: \<^verbatim>\<open>model/response.go\<close> is not among the sources. The spec (section 3)
  and the API documentation give it one field, \<^verbatim>\<open>Message string `json:"message"`\<close>.
\<close>

record Response =
  Message :: string

subsection \<open>JSON values\<close>

datatype json =
    JNull
  | JNumber int
  | JString string
  | JArray "json list"
  | JObject "(string \<times> json) list"

subsection \<open>Go error values\<close>

text \<open>
  The program observes an error value in three ways: it compares it with the sentinel
  \<^verbatim>\<open>sql.ErrConnDone\<close>, it reads its text with \<^verbatim>\<open>Error()\<close>, and it hands it to
  \<^verbatim>\<open>encoding/json\<close>. \<open>ErrNoRows\<close> and \<open>ErrConnDone\<close> are the two sentinels of
  \<^verbatim>\<open>database/sql\<close>; \<open>ErrorString\<close> is any other value built by \<^verbatim>\<open>errors.New\<close> or
  \<^verbatim>\<open>fmt.Errorf\<close> (a struct with no exported field); \<open>DriverError\<close> is a value of an error
  type of the driver's own, given by its text and by what \<^verbatim>\<open>encoding/json\<close> makes of its
  exported fields.
\<close>

datatype error =
    ErrNoRows
  | ErrConnDone
  | ErrorString string
  | DriverError string json

fun Error :: "error \<Rightarrow> string" where
  "Error ErrNoRows = ''sql: no rows in result set''"
| "Error ErrConnDone = ''sql: connection is already closed''"
| "Error (ErrorString s) = s"
| "Error (DriverError s j) = s"

text \<open>
  \<^verbatim>\<open>json.Marshal\<close> of an error value encodes the exported fields of its dynamic type:
  the values of \<^verbatim>\<open>errors.New\<close> and \<^verbatim>\<open>fmt.Errorf\<close> have none and encode as the empty
  object.
\<close>

fun marshal_error :: "error \<Rightarrow> json" where
  "marshal_error ErrNoRows = JObject []"
| "marshal_error ErrConnDone = JObject []"
| "marshal_error (ErrorString s) = JObject []"
| "marshal_error (DriverError s j) = j"

definition marshal_User :: "User \<Rightarrow> json" where
  "marshal_User u =
     JObject [(''user_id'', JNumber (ID u)), (''name'', JString (Name u)),
              (''email'', JString (Email u)), (''img_url'', JString (ImgURL u))]"

text \<open>A nil slice (\<open>None\<close>) encodes as \<^verbatim>\<open>null\<close>, an empty non-nil slice as \<^verbatim>\<open>[]\<close>.\<close>

definition marshal_Users :: "User list option \<Rightarrow> json" where
  "marshal_Users us = (case us of None \<Rightarrow> JNull | Some xs \<Rightarrow> JArray (map marshal_User xs))"

definition marshal_Response :: "Response \<Rightarrow> json" where
  "marshal_Response r = JObject [(''message'', JString (Message r))]"

section \<open>The store behind database/sql\<close>

text \<open>
  The three statements of the repository, by the names they use: the columns and table of
  a \<^verbatim>\<open>SELECT cols FROM table\<close>, the table and key column of a
  \<^verbatim>\<open>SELECT * FROM table WHERE col = $1\<close>, and the table, value columns and returned column of
  an \<^verbatim>\<open>INSERT INTO table (cols) VALUES ($1, $2, $3) RETURNING col\<close>.
\<close>

datatype query =
    Select "string list" string
  | SelectStarWhere string string
  | InsertReturning string "string list" string

fun table_of :: "query \<Rightarrow> string" where
  "table_of (Select cols t) = t"
| "table_of (SelectStarWhere t c) = t"
| "table_of (InsertReturning t cols r) = t"

text \<open>
  A row holds an integer key, two texts and a nullable text (the image URL column of the
  documented schema has no NOT NULL constraint), whatever names the table gives its columns.
\<close>

record Row =
  row_id :: int
  row_name :: string
  row_email :: string
  row_img_url :: "string option"

text \<open>
  The state of the store as the program can observe it:
  \<^item> \<open>tables\<close>: the rows of each table, in storage order;
  \<^item> \<open>serial\<close>: the next key the store assigns in each table;
  \<^item> \<open>parse_err\<close>: the statements the server rejects when it receives their text (an
    unknown table or column, a syntax error, a lost connection), with the error reported;
  \<^item> \<open>exec_err\<close>: the statements whose execution fails (a violated constraint, a lost
    connection), with the error reported;
  \<^item> \<open>open_stmts\<close>: the prepared statements not yet closed;
  \<^item> \<open>log\<close>: every statement sent to the server, oldest first.
\<close>

record Store =
  tables :: "string \<Rightarrow> Row list"
  serial :: "string \<Rightarrow> int"
  parse_err :: "query \<Rightarrow> error option"
  exec_err :: "query \<Rightarrow> error option"
  open_stmts :: nat
  log :: "query list"

subsection \<open>The calls of database/sql the repository makes\<close>

text \<open>\<^verbatim>\<open>DB.Query(text)\<close>: the rows of the table, or the server's error.\<close>

definition DB_Query :: "query \<Rightarrow> Store \<Rightarrow> (error + Row list) \<times> Store" where
  "DB_Query q s =
     (let s1 = s\<lparr>log := log s @ [q]\<rparr> in
      case parse_err s q of
        Some e \<Rightarrow> (Inl e, s1)
      | None \<Rightarrow>
          (case exec_err s q of
             Some e \<Rightarrow> (Inl e, s1)
           | None \<Rightarrow> (Inr (tables s (table_of q)), s1)))"

text \<open>\<^verbatim>\<open>DB.Prepare(text)\<close>: a statement handle, open until \<^verbatim>\<open>Stmt.Close\<close>, or the server's error.\<close>

definition DB_Prepare :: "query \<Rightarrow> Store \<Rightarrow> (error + query) \<times> Store" where
  "DB_Prepare q s =
     (case parse_err s q of
        Some e \<Rightarrow> (Inl e, s\<lparr>log := log s @ [q]\<rparr>)
      | None \<Rightarrow> (Inr q, s\<lparr>open_stmts := Suc (open_stmts s), log := log s @ [q]\<rparr>))"

definition Stmt_Close :: "query \<Rightarrow> Store \<Rightarrow> Store" where
  "Stmt_Close stmt s = s\<lparr>open_stmts := open_stmts s - 1\<rparr>"

text \<open>
  \<^verbatim>\<open>Rows.Scan(&u.ID, &u.Name, &u.Email, &u.ImgURL)\<close>: a NULL cannot be stored in a Go
  \<^verbatim>\<open>string\<close>, and \<^verbatim>\<open>database/sql\<close> reports it with a \<^verbatim>\<open>fmt.Errorf\<close> value.
\<close>

definition Scan_User :: "Row \<Rightarrow> error + User" where
  "Scan_User r =
     (case row_img_url r of
        None \<Rightarrow>
          Inl (ErrorString (''sql: Scan error on column index 3, name '' @ [CHR 0x22] @ ''img_url''
                 @ [CHR 0x22] @ '': converting NULL to string is unsupported''))
      | Some u \<Rightarrow> Inr \<lparr>ID = row_id r, Name = row_name r, Email = row_email r, ImgURL = u\<rparr>)"

text \<open>
  \<^verbatim>\<open>Stmt.QueryRow(id).Scan(...)\<close> on a prepared select by key: the error of the execution
  if it failed, \<^verbatim>\<open>sql.ErrNoRows\<close> when the result set is empty, and the scan of the first
  row otherwise.
\<close>

definition Stmt_QueryRow_Scan :: "query \<Rightarrow> int \<Rightarrow> Store \<Rightarrow> (error + User) \<times> Store" where
  "Stmt_QueryRow_Scan stmt k s =
     (let s1 = s\<lparr>log := log s @ [stmt]\<rparr> in
      case exec_err s stmt of
        Some e \<Rightarrow> (Inl e, s1)
      | None \<Rightarrow>
          (case filter (\<lambda>r. row_id r = k) (tables s (table_of stmt)) of
             [] \<Rightarrow> (Inl ErrNoRows, s1)
           | r # rest \<Rightarrow> (Scan_User r, s1)))"

text \<open>
  \<^verbatim>\<open>Stmt.QueryRow(name, email, img).Scan(&id)\<close> on a prepared insert: the store appends a row
  under the next key of the table and returns the key, or reports why it did not.
\<close>

definition Stmt_QueryRow_Insert ::
  "query \<Rightarrow> string \<Rightarrow> string \<Rightarrow> string \<Rightarrow> Store \<Rightarrow> (error + int) \<times> Store" where
  "Stmt_QueryRow_Insert stmt n e u s =
     (let s1 = s\<lparr>log := log s @ [stmt]\<rparr>; t = table_of stmt; k = serial s t in
      case exec_err s stmt of
        Some err \<Rightarrow> (Inl err, s1)
      | None \<Rightarrow>
          (Inr k,
           s1\<lparr>tables := (tables s)(t := tables s t @
                   [\<lparr>row_id = k, row_name = n, row_email = e, row_img_url = Some u\<rparr>]),
              serial := (serial s)(t := k + 1)\<rparr>))"

section \<open>The repository (repository/user_repo.go)\<close>

text \<open>Go's variables named \<^verbatim>\<open>id\<close> are written \<open>id'\<close>.\<close>

text \<open>
  Go's \<^verbatim>\<open>append\<close> on a slice: the result is never nil, also when the slice was.
\<close>

definition append_slice :: "'a list option \<Rightarrow> 'a \<Rightarrow> 'a list option" where
  "append_slice xs x = (case xs of None \<Rightarrow> Some [x] | Some ys \<Rightarrow> Some (ys @ [x]))"

text \<open>
  The loop \<^verbatim>\<open>for rows.Next() { ... }\<close> of \<^verbatim>\<open>GetUsers\<close> over the rows of the result set,
  with \<^verbatim>\<open>usersList\<close> as its accumulator: a row that does not scan ends the function with
  the empty non-nil slice and the error.
\<close>

fun GetUsers_loop :: "Row list \<Rightarrow> User list option \<Rightarrow> User list option \<times> error option" where
  "GetUsers_loop [] usersList = (usersList, None)"
| "GetUsers_loop (r # rows) usersList =
     (case Scan_User r of
        Inl err \<Rightarrow> (Some [], Some err)
      | Inr userObj \<Rightarrow> GetUsers_loop rows (append_slice usersList userObj))"

text \<open>
  \<^verbatim>\<open>var usersList []model.User\<close> starts as the nil slice, \<open>None\<close>. The cursor that
  \<^verbatim>\<open>rows.Close()\<close> releases is not part of the state.
\<close>

definition UserRepository_GetUsers :: "Store \<Rightarrow> (User list option \<times> error option) \<times> Store" where
  "UserRepository_GetUsers s =
     (case DB_Query (Select [''id'', ''name'', ''email'', ''img_url''] ''users'') s of
        (Inl err, s1) \<Rightarrow> ((Some [], Some err), s1)
      | (Inr rows, s1) \<Rightarrow> (GetUsers_loop rows None, s1))"

definition UserRepository_CreateUser :: "User \<Rightarrow> Store \<Rightarrow> (int \<times> error option) \<times> Store" where
  "UserRepository_CreateUser user s =
     (case DB_Prepare
             (InsertReturning ''user'' [''user_name'', ''user_email'', ''user_imgurl''] ''user_id'') s of
        (Inl err, s1) \<Rightarrow> ((- 1, Some err), s1)
      | (Inr query, s1) \<Rightarrow>
          (case Stmt_QueryRow_Insert query (Name user) (Email user) (ImgURL user) s1 of
             (Inl err, s2) \<Rightarrow> ((- 1, Some err), s2)
           | (Inr id', s2) \<Rightarrow> ((id', None), Stmt_Close query s2)))"

text \<open>
  The result \<open>(None, None)\<close> is Go's \<^verbatim>\<open>return nil, nil\<close>: no user and no error.
\<close>

definition UserRepository_GetUser :: "int \<Rightarrow> Store \<Rightarrow> (User option \<times> error option) \<times> Store" where
  "UserRepository_GetUser id' s =
     (case DB_Prepare (SelectStarWhere ''users'' ''id'') s of
        (Inl err, s1) \<Rightarrow> ((None, Some err), s1)
      | (Inr query, s1) \<Rightarrow>
          (case Stmt_QueryRow_Scan query id' s1 of
             (Inl err, s2) \<Rightarrow>
               (if err = ErrConnDone then ((None, None), s2) else ((None, Some err), s2))
           | (Inr user, s2) \<Rightarrow> ((Some user, None), Stmt_Close query s2)))"

section \<open>The usecase (usecase/user_usecase.go)\<close>

definition UserUsecase_GetUsers :: "Store \<Rightarrow> (User list option \<times> error option) \<times> Store" where
  "UserUsecase_GetUsers s = UserRepository_GetUsers s"

definition UserUsecase_CreateUser :: "User \<Rightarrow> Store \<Rightarrow> (User \<times> error option) \<times> Store" where
  "UserUsecase_CreateUser user s =
     (case UserRepository_CreateUser user s of
        ((uid, Some err), s1) \<Rightarrow> ((zero_User, Some err), s1)
      | ((uid, None), s1) \<Rightarrow> ((user\<lparr>ID := uid\<rparr>, None), s1))"

definition UserUsecase_GetUser :: "int \<Rightarrow> Store \<Rightarrow> (User option \<times> error option) \<times> Store" where
  "UserUsecase_GetUser id' s = UserRepository_GetUser id' s"

section \<open>The controller (controller/user_controller.go) and the ping route\<close>

text \<open>
  What a handler reads of the request (\<^verbatim>\<open>*gin.Context\<close>): the path parameters, and the
  outcome of binding the body to a \<^verbatim>\<open>model.User\<close> (\<^verbatim>\<open>ctx.BindJSON\<close>). What it writes is
  one call of \<^verbatim>\<open>ctx.JSON(code, obj)\<close>: a status and a JSON body.
\<close>

record Context =
  Params :: "(string \<times> string) list"
  BindJSON :: "error + User"

record Reply =
  status :: nat
  body :: json

definition JSON :: "nat \<Rightarrow> json \<Rightarrow> Reply" where
  "JSON code obj = \<lparr>status = code, body = obj\<rparr>"

text \<open>\<^verbatim>\<open>ctx.Param(key)\<close>: the value of the first parameter of that name, or the empty string.\<close>

fun Param :: "(string \<times> string) list \<Rightarrow> string \<Rightarrow> string" where
  "Param [] key = []"
| "Param ((k, v) # ps) key = (if k = key then v else Param ps key)"

text \<open>
  \<^verbatim>\<open>strconv.Atoi\<close> on a 64-bit platform: an optional sign and at least one decimal digit,
  within the range of \<^verbatim>\<open>int\<close>. The handler drops the error value, so \<open>None\<close> stands for
  any of them.
\<close>

definition is_digit :: "char \<Rightarrow> bool" where
  "is_digit c = (48 \<le> (of_char c :: nat) \<and> (of_char c :: nat) \<le> 57)"

fun digits_value :: "string \<Rightarrow> int \<Rightarrow> int" where
  "digits_value [] n = n"
| "digits_value (c # cs) n = digits_value cs (n * 10 + (of_char c - 48))"

definition Atoi :: "string \<Rightarrow> int option" where
  "Atoi s =
     (case s of
        [] \<Rightarrow> None
      | c # cs \<Rightarrow>
          (let ds = (if c = CHR ''-'' then cs else if c = CHR ''+'' then cs else s) in
           if ds = [] then None
           else if list_all is_digit ds then
             (let n = digits_value ds 0; v = (if c = CHR ''-'' then - n else n) in
              if - (2 ^ 63) \<le> v \<and> v < 2 ^ 63 then Some v else None)
           else None))"

definition UserController_GetUsers :: "Context \<Rightarrow> Store \<Rightarrow> Reply \<times> Store" where
  "UserController_GetUsers ctx s =
     (case UserUsecase_GetUsers s of
        ((products, Some err), s1) \<Rightarrow> (JSON 500 (JObject [(''error'', JString (Error err))]), s1)
      | ((products, None), s1) \<Rightarrow> (JSON 200 (marshal_Users products), s1))"

definition UserController_CreateUser :: "Context \<Rightarrow> Store \<Rightarrow> Reply \<times> Store" where
  "UserController_CreateUser ctx s =
     (case BindJSON ctx of
        Inl err \<Rightarrow> (JSON 400 (marshal_error err), s)
      | Inr user \<Rightarrow>
          (case UserUsecase_CreateUser user s of
             ((insertedUser, Some err), s1) \<Rightarrow> (JSON 500 (marshal_error err), s1)
           | ((insertedUser, None), s1) \<Rightarrow> (JSON 201 (marshal_User insertedUser), s1)))"

definition msg_missing_id :: string where
  "msg_missing_id = ''Essa rota espera receber um id como par'' @ [CHR 0xC3, CHR 0xA2] @ ''metro''"

definition msg_not_numeric :: string where
  "msg_not_numeric = ''Essa rota espera receber um id num'' @ [CHR 0xC3, CHR 0xA9] @ ''rico''"

definition msg_not_found :: string where
  "msg_not_found =
     ''Nenhum usu'' @ [CHR 0xC3, CHR 0xA1] @ ''rio foi localizado com o id fornecido''"

definition UserController_GetUser :: "Context \<Rightarrow> Store \<Rightarrow> Reply \<times> Store" where
  "UserController_GetUser ctx s =
     (let id' = Param (Params ctx) ''id'' in
      if id' = [] then (JSON 400 (marshal_Response \<lparr>Message = msg_missing_id\<rparr>), s)
      else
        (case Atoi id' of
           None \<Rightarrow> (JSON 400 (marshal_Response \<lparr>Message = msg_not_numeric\<rparr>), s)
         | Some safeId \<Rightarrow>
             (case UserUsecase_GetUser safeId s of
                ((user, Some err), s1) \<Rightarrow> (JSON 500 (marshal_error err), s1)
              | ((None, None), s1) \<Rightarrow>
                  (JSON 404 (marshal_Response \<lparr>Message = msg_not_found\<rparr>), s1)
              | ((Some u, None), s1) \<Rightarrow> (JSON 200 (marshal_User u), s1))))"

text \<open>The handler that \<^verbatim>\<open>main\<close> registers for \<^verbatim>\<open>GET /ping\<close>.\<close>

definition ping :: "Context \<Rightarrow> Store \<Rightarrow> Reply \<times> Store" where
  "ping ctx s = (JSON 200 (JObject [(''message'', JString ''pong'')]), s)"

section \<open>Stores and requests used as concrete inputs\<close>

text \<open>
  A store in which every table is empty, keys start at 1 and the server refuses nothing.
  It accepts the insert into the table \<^verbatim>\<open>user\<close> that \<^verbatim>\<open>CreateUser\<close> sends, which a store
  of the documented schema (its only table is \<^verbatim>\<open>users\<close>) does not: there every
  \<^verbatim>\<open>CreateUser\<close> fails at \<^verbatim>\<open>Prepare\<close>.
\<close>

definition fresh_store :: Store where
  "fresh_store =
     \<lparr>tables = (\<lambda>t. []), serial = (\<lambda>t. 1), parse_err = (\<lambda>q. None),
      exec_err = (\<lambda>q. None), open_stmts = 0, log = []\<rparr>"

text \<open>
  The table \<^verbatim>\<open>users\<close> of the README's schema (\<^verbatim>\<open>id, name, email, img_url\<close>) holding the
  four sample rows of \<^verbatim>\<open>scripts/setup-database.sql\<close>: the third has a NULL image URL.
\<close>

definition sample_rows :: "Row list" where
  "sample_rows =
     [\<lparr>row_id = 1, row_name = ''John Doe'', row_email = ''john.doe@example.com'',
       row_img_url = Some ''https://example.com/avatars/john.jpg''\<rparr>,
      \<lparr>row_id = 2, row_name = ''Jane Smith'', row_email = ''jane.smith@example.com'',
       row_img_url = Some ''https://example.com/avatars/jane.jpg''\<rparr>,
      \<lparr>row_id = 3, row_name = ''Bob Wilson'', row_email = ''bob.wilson@example.com'',
       row_img_url = None\<rparr>,
      \<lparr>row_id = 4, row_name = ''Alice Johnson'', row_email = ''alice.johnson@example.com'',
       row_img_url = Some ''https://example.com/avatars/alice.jpg''\<rparr>]"

definition sample_store :: Store where
  "sample_store =
     fresh_store\<lparr>tables := (\<lambda>t. if t = ''users'' then sample_rows else []),
                 serial := (\<lambda>t. if t = ''users'' then 5 else 1)\<rparr>"

text \<open>
  \<^verbatim>\<open>driver.ErrBadConn\<close>, the \<^verbatim>\<open>errors.New\<close> value that \<^verbatim>\<open>database/sql\<close> returns when the
  connection to the server is lost; a store that rejects every statement with it, and one
  that accepts the statements and fails every execution with it.
\<close>

definition ErrBadConn :: error where
  "ErrBadConn = ErrorString ''driver: bad connection''"

definition unreachable_store :: Store where
  "unreachable_store = fresh_store\<lparr>parse_err := (\<lambda>q. Some ErrBadConn)\<rparr>"

definition failing_store :: Store where
  "failing_store = fresh_store\<lparr>exec_err := (\<lambda>q. Some ErrBadConn)\<rparr>"

text \<open>
  A \<^verbatim>\<open>GET\<close> request with a path parameter \<^verbatim>\<open>id\<close> (it has no body, so binding one fails
  with \<^verbatim>\<open>io.EOF\<close>), and a \<^verbatim>\<open>POST\<close> request whose body binds to a user.
\<close>

definition get_request :: "string \<Rightarrow> Context" where
  "get_request v = \<lparr>Params = [(''id'', v)], BindJSON = Inl (ErrorString ''EOF'')\<rparr>"

definition post_request :: "User \<Rightarrow> Context" where
  "post_request u = \<lparr>Params = [], BindJSON = Inr u\<rparr>"

definition ana :: User where
  "ana = \<lparr>ID = 0, Name = ''Ana'', Email = ''ana@example.com'', ImgURL = []\<rparr>"

section \<open>Facts about the model\<close>

lemmas driver_defs = DB_Query_def DB_Prepare_def Stmt_Close_def Scan_User_def
  Stmt_QueryRow_Scan_def Stmt_QueryRow_Insert_def Let_def

lemmas repository_defs = UserRepository_GetUsers_def UserRepository_CreateUser_def
  UserRepository_GetUser_def

lemmas usecase_defs = UserUsecase_GetUsers_def UserUsecase_CreateUser_def UserUsecase_GetUser_def

lemmas controller_defs = UserController_GetUsers_def UserController_CreateUser_def
  UserController_GetUser_def JSON_def marshal_Response_def marshal_User_def marshal_Users_def
  msg_missing_id_def msg_not_numeric_def msg_not_found_def

lemmas input_defs = fresh_store_def sample_store_def sample_rows_def unreachable_store_def
  failing_store_def ErrBadConn_def get_request_def post_request_def ana_def

text \<open>
  Every call of the repository reaches the store and leaves a trace in its log, so a
  handler that returns the store as it found it has called neither the usecase nor the
  repository.
\<close>

lemma GetUsers_reaches_store: "length (log s) < length (log (snd (UserRepository_GetUsers s)))"
  by (simp add: UserRepository_GetUsers_def DB_Query_def Let_def split: option.splits)

lemma CreateUser_reaches_store:
  "length (log s) < length (log (snd (UserRepository_CreateUser user s)))"
  by (simp add: UserRepository_CreateUser_def driver_defs split: option.splits)

lemma GetUser_reaches_store:
  "length (log s) < length (log (snd (UserRepository_GetUser k s)))"
  by (simp add: UserRepository_GetUser_def driver_defs split: option.splits list.splits sum.splits)

text \<open>
  \<^verbatim>\<open>CreateUser\<close> writes the table \<^verbatim>\<open>user\<close>. What the server refuses and the table
  \<^verbatim>\<open>users\<close> are the same after it as before, and they are all that \<^verbatim>\<open>GetUsers\<close> and
  \<^verbatim>\<open>GetUser\<close> depend on: what the two return after a create is what they returned before
  it.
\<close>

lemma CreateUser_frame:
  "parse_err (snd (UserRepository_CreateUser user s)) = parse_err s \<and>
   exec_err (snd (UserRepository_CreateUser user s)) = exec_err s \<and>
   tables (snd (UserRepository_CreateUser user s)) ''users'' = tables s ''users''"
  by (simp add: UserRepository_CreateUser_def driver_defs split: option.splits)

lemma GetUsers_reads_users:
  assumes "parse_err a = parse_err b" and "exec_err a = exec_err b"
    and "tables a ''users'' = tables b ''users''"
  shows "fst (UserRepository_GetUsers a) = fst (UserRepository_GetUsers b)"
  using assms by (simp add: UserRepository_GetUsers_def DB_Query_def Let_def split: option.splits)

lemma GetUser_reads_users:
  assumes "parse_err a = parse_err b" and "exec_err a = exec_err b"
    and "tables a ''users'' = tables b ''users''"
  shows "fst (UserRepository_GetUser k a) = fst (UserRepository_GetUser k b)"
  using assms
  by (simp add: UserRepository_GetUser_def DB_Prepare_def Stmt_QueryRow_Scan_def Stmt_Close_def
      Let_def split: option.splits list.splits sum.splits)

lemma GetUsers_after_CreateUser:
  "fst (UserRepository_GetUsers (snd (UserRepository_CreateUser user s))) =
   fst (UserRepository_GetUsers s)"
  by (rule GetUsers_reads_users) (simp_all add: CreateUser_frame)

lemma GetUser_after_CreateUser:
  "fst (UserRepository_GetUser k (snd (UserRepository_CreateUser user s))) =
   fst (UserRepository_GetUser k s)"
  by (rule GetUser_reads_users) (simp_all add: CreateUser_frame)

text \<open>
  \<^verbatim>\<open>GetUser\<close> reports "no user, no error" exactly when the execution of its statement
  reported \<^verbatim>\<open>sql.ErrConnDone\<close>; an empty result set is reported as the error
  \<^verbatim>\<open>sql.ErrNoRows\<close>.
\<close>

lemma GetUser_nil_nil_iff:
  "fst (UserRepository_GetUser k s) = (None, None) \<longleftrightarrow>
     parse_err s (SelectStarWhere ''users'' ''id'') = None \<and>
     exec_err s (SelectStarWhere ''users'' ''id'') = Some ErrConnDone"
  by (auto simp add: UserRepository_GetUser_def driver_defs
      split: option.splits list.splits sum.splits)

lemma GetUser_no_row:
  assumes "parse_err s (SelectStarWhere ''users'' ''id'') = None"
    and "exec_err s (SelectStarWhere ''users'' ''id'') = None"
    and "filter (\<lambda>r. row_id r = k) (tables s ''users'') = []"
  shows "fst (UserRepository_GetUser k s) = (None, Some ErrNoRows)"
  using assms by (simp add: UserRepository_GetUser_def driver_defs)

text \<open>
  A store that rejects the text of the insert (one without a table \<^verbatim>\<open>user\<close>, as the
  documented schema is) makes every \<^verbatim>\<open>CreateUser\<close> fail.
\<close>

lemma CreateUser_rejected:
  assumes "parse_err s
             (InsertReturning ''user'' [''user_name'', ''user_email'', ''user_imgurl''] ''user_id'') =
           Some e"
  shows "fst (UserRepository_CreateUser user s) = (- 1, Some e)"
  using assms by (simp add: UserRepository_CreateUser_def DB_Prepare_def)

text \<open>
  Whenever \<^verbatim>\<open>GetUser\<close> or \<^verbatim>\<open>CreateUser\<close> has prepared its statement and then returns
  without a result, the statement is still open.
\<close>

lemma GetUser_leaves_statement_open:
  assumes "parse_err s (SelectStarWhere ''users'' ''id'') = None"
    and "fst (fst (UserRepository_GetUser k s)) = None"
  shows "open_stmts (snd (UserRepository_GetUser k s)) = Suc (open_stmts s)"
  using assms
  by (auto simp add: UserRepository_GetUser_def driver_defs
      split: option.splits list.splits if_splits)

lemma CreateUser_leaves_statement_open:
  assumes "parse_err s
             (InsertReturning ''user'' [''user_name'', ''user_email'', ''user_imgurl''] ''user_id'') =
           None"
    and "snd (fst (UserRepository_CreateUser user s)) = Some e"
  shows "open_stmts (snd (UserRepository_CreateUser user s)) = Suc (open_stmts s)"
  using assms
  by (simp add: UserRepository_CreateUser_def driver_defs split: option.splits)

text \<open>
  The handlers of the create and get-by-id routes answer a usecase error with status 500
  and the JSON encoding of the error value; the handler of the list route answers it with
  status 500 and the error's text under \<^verbatim>\<open>error\<close>.
\<close>

lemma GetUsers_error_reply:
  assumes "UserUsecase_GetUsers s = ((xs, Some e), s')"
  shows "UserController_GetUsers ctx s =
           (\<lparr>status = 500, body = JObject [(''error'', JString (Error e))]\<rparr>, s')"
  using assms by (simp add: UserController_GetUsers_def JSON_def)

lemma CreateUser_error_reply:
  assumes "BindJSON ctx = Inr user" and "UserUsecase_CreateUser user s = ((u, Some e), s')"
  shows "UserController_CreateUser ctx s = (\<lparr>status = 500, body = marshal_error e\<rparr>, s')"
  using assms by (simp add: UserController_CreateUser_def JSON_def)

lemma GetUser_error_reply:
  assumes "Atoi (Param (Params ctx) ''id'') = Some k"
    and "UserUsecase_GetUser k s = ((u, Some e), s')"
  shows "UserController_GetUser ctx s = (\<lparr>status = 500, body = marshal_error e\<rparr>, s')"
proof -
  from assms(1) have "Param (Params ctx) ''id'' \<noteq> []"
    by (auto simp add: Atoi_def)
  with assms show ?thesis
    by (cases u) (simp_all add: UserController_GetUser_def JSON_def)
qed

text \<open>
  The get-by-id handler answers "no user, no error" from the usecase with status 404 and
  the not-found message.
\<close>

lemma GetUser_not_found_reply:
  assumes "Atoi (Param (Params ctx) ''id'') = Some k"
    and "UserUsecase_GetUser k s = ((None, None), s')"
  shows "UserController_GetUser ctx s =
           (\<lparr>status = 404, body = JObject [(''message'', JString msg_not_found)]\<rparr>, s')"
proof -
  from assms(1) have "Param (Params ctx) ''id'' \<noteq> []"
    by (auto simp add: Atoi_def)
  with assms show ?thesis
    by (simp add: UserController_GetUser_def JSON_def marshal_Response_def)
qed

section \<open>The claims\<close>

text \<open>
  C1. Get-by-id when no row has the requested identifier: the claim asks for a not-found
  signal from the repository and a 404 with the message "Nenhum usuario foi localizado com
  o id fornecido" from the handler. On a store with no user at all, \<^verbatim>\<open>GET /user/999999\<close>
  makes the repository return the error \<^verbatim>\<open>sql.ErrNoRows\<close> (it treats only
  \<^verbatim>\<open>sql.ErrConnDone\<close> as not found), and the handler answers 500 with an empty object.
\<close>

theorem GetUser_missing_row_is_500:
  "fst (UserRepository_GetUser 999999 fresh_store) = (None, Some ErrNoRows) \<and>
   fst (UserController_GetUser (get_request ''999999'') fresh_store) =
     \<lparr>status = 500, body = JObject []\<rparr>"
  by (simp add: controller_defs usecase_defs repository_defs driver_defs input_defs
      Atoi_def is_digit_def)

text \<open>
  C3. The list should hold every created record and be the empty array, not null, when
  there are no rows. On the store with no rows the repository returns the nil slice and the
  endpoint answers 200 with \<^verbatim>\<open>null\<close>; it still does after Ana has been created, since
  the list reads the table \<^verbatim>\<open>users\<close> and the insert went to \<^verbatim>\<open>user\<close>.
\<close>

theorem list_of_no_rows_is_null:
  "fst (UserRepository_GetUsers fresh_store) = (None, None) \<and>
   fst (UserController_GetUsers (get_request []) fresh_store) = \<lparr>status = 200, body = JNull\<rparr> \<and>
   fst (UserRepository_CreateUser ana fresh_store) = (1, None) \<and>
   fst (UserController_GetUsers (get_request [])
          (snd (UserRepository_CreateUser ana fresh_store))) = \<lparr>status = 200, body = JNull\<rparr>"
  by (simp add: controller_defs usecase_defs repository_defs driver_defs input_defs)

text \<open>
  C4. A storage error should give a 500 whose body carries the error's message. The list
  endpoint does that; the other two hand the error value itself to the JSON encoder. With
  the connection lost, \<^verbatim>\<open>GET /users\<close> answers 500 with the message under \<^verbatim>\<open>error\<close>, while
  \<^verbatim>\<open>POST /user\<close> answers 500 with an empty object; so does \<^verbatim>\<open>GET /user/3\<close> on the sample
  data, where the row does not decode.
\<close>

theorem storage_error_body_is_empty_object:
  "fst (UserController_GetUsers (get_request []) unreachable_store) =
     \<lparr>status = 500, body = JObject [(''error'', JString ''driver: bad connection'')]\<rparr> \<and>
   fst (UserController_CreateUser (post_request ana) unreachable_store) =
     \<lparr>status = 500, body = JObject []\<rparr> \<and>
   fst (UserController_CreateUser (post_request ana) failing_store) =
     \<lparr>status = 500, body = JObject []\<rparr> \<and>
   fst (UserController_GetUser (get_request ''3'') sample_store) =
     \<lparr>status = 500, body = JObject []\<rparr>"
  by (simp add: controller_defs usecase_defs repository_defs driver_defs input_defs
      Atoi_def is_digit_def)

text \<open>
  C5. A prepared statement should be released on every path. When the execution or the
  scan fails, the statement stays open: the store that had no open statement has one after
  a get-by-id that finds no row, after one whose row does not decode, and after a create
  whose insert fails. On the successful paths it is closed.
\<close>

theorem failed_execution_leaves_statement_open:
  "open_stmts fresh_store = 0 \<and>
   open_stmts (snd (UserRepository_GetUser 999999 fresh_store)) = 1 \<and>
   open_stmts sample_store = 0 \<and>
   open_stmts (snd (UserRepository_GetUser 3 sample_store)) = 1 \<and>
   open_stmts (snd (UserRepository_GetUser 2 sample_store)) = 0 \<and>
   open_stmts failing_store = 0 \<and>
   open_stmts (snd (UserRepository_CreateUser ana failing_store)) = 1 \<and>
   open_stmts (snd (UserRepository_CreateUser ana fresh_store)) = 0"
  by (simp add: repository_defs driver_defs input_defs)

text \<open>
  C6. When the repository's insert succeeds with identifier \<open>uid\<close>, the usecase returns
  the input with \<open>uid\<close> as its id and the name, email and image URL of the input, and no
  error.
\<close>

theorem usecase_create_copies_id:
  "UserRepository_CreateUser user s = ((uid, None), s') \<Longrightarrow>
   UserUsecase_CreateUser user s =
     ((\<lparr>ID = uid, Name = Name user, Email = Email user, ImgURL = ImgURL user\<rparr>, None), s')"
  by (simp add: UserUsecase_CreateUser_def)

theorem usecase_create_copies_id_witness:
  "fst (UserRepository_CreateUser ana fresh_store) = (1, None) \<and>
   fst (UserUsecase_CreateUser ana fresh_store) =
     (\<lparr>ID = 1, Name = ''Ana'', Email = ''ana@example.com'', ImgURL = []\<rparr>, None)"
proof -
  have r: "fst (UserRepository_CreateUser ana fresh_store) = (1, None)"
    by (simp add: repository_defs driver_defs input_defs)
  then have h: "UserRepository_CreateUser ana fresh_store =
                  ((1, None), snd (UserRepository_CreateUser ana fresh_store))"
    by (simp add: prod_eq_iff)
  have "fst (UserUsecase_CreateUser ana fresh_store) =
          (\<lparr>ID = 1, Name = ''Ana'', Email = ''ana@example.com'', ImgURL = []\<rparr>, None)"
    using usecase_create_copies_id [OF h] by (simp add: ana_def)
  with r show ?thesis
    by blast
qed

text \<open>
  C7. For each of the three operations the usecase returns the error component of the
  repository's result as it is (nil when it is nil, the same value otherwise) and leaves
  the store in the state the repository's single call left it in: nothing is retried.
\<close>

theorem usecase_propagates_errors:
  "snd (fst (UserUsecase_GetUsers s)) = snd (fst (UserRepository_GetUsers s)) \<and>
   snd (UserUsecase_GetUsers s) = snd (UserRepository_GetUsers s) \<and>
   snd (fst (UserUsecase_CreateUser user s)) = snd (fst (UserRepository_CreateUser user s)) \<and>
   snd (UserUsecase_CreateUser user s) = snd (UserRepository_CreateUser user s) \<and>
   snd (fst (UserUsecase_GetUser k s)) = snd (fst (UserRepository_GetUser k s)) \<and>
   snd (UserUsecase_GetUser k s) = snd (UserRepository_GetUser k s)"
  by (simp add: usecase_defs split: prod.splits option.splits)

text \<open>
  C8. The get-by-id handler answers 400 with "Essa rota espera receber um id como
  parametro" when the path parameter is empty, and 400 with "Essa rota espera receber um id
  numerico" when it is not empty and \<^verbatim>\<open>strconv.Atoi\<close> rejects it (the accented letters are
  their two UTF-8 bytes). In both cases it returns the store untouched: neither the usecase
  nor the repository has been called.
\<close>

theorem GetUser_rejects_bad_id:
  "(Param (Params ctx) ''id'' = [] \<longrightarrow>
      UserController_GetUser ctx s =
        (\<lparr>status = 400, body = JObject [(''message'', JString
           (''Essa rota espera receber um id como par'' @ [CHR 0xC3, CHR 0xA2] @ ''metro''))]\<rparr>,
         s)) \<and>
   (Param (Params ctx) ''id'' \<noteq> [] \<and> Atoi (Param (Params ctx) ''id'') = None \<longrightarrow>
      UserController_GetUser ctx s =
        (\<lparr>status = 400, body = JObject [(''message'', JString
           (''Essa rota espera receber um id num'' @ [CHR 0xC3, CHR 0xA9] @ ''rico''))]\<rparr>,
         s))"
  by (simp add: controller_defs)

theorem GetUser_rejects_bad_id_witness:
  "UserController_GetUser (get_request []) sample_store =
     (\<lparr>status = 400, body = JObject [(''message'', JString
        (''Essa rota espera receber um id como par'' @ [CHR 0xC3, CHR 0xA2] @ ''metro''))]\<rparr>,
      sample_store) \<and>
   UserController_GetUser (get_request ''abc'') sample_store =
     (\<lparr>status = 400, body = JObject [(''message'', JString
        (''Essa rota espera receber um id num'' @ [CHR 0xC3, CHR 0xA9] @ ''rico''))]\<rparr>,
      sample_store)"
  using GetUser_rejects_bad_id [of "get_request []" sample_store]
    GetUser_rejects_bad_id [of "get_request ''abc''" sample_store]
  by (simp add: get_request_def Atoi_def is_digit_def)

text \<open>
  C9. The ping handler answers 200 with the object \<^verbatim>\<open>{"message":"pong"}\<close> for every
  request and every state of the store, and returns the store untouched.
\<close>

theorem ping_always_pong:
  "ping ctx s = (\<lparr>status = 200, body = JObject [(''message'', JString ''pong'')]\<rparr>, s)"
  by (simp add: ping_def JSON_def)

text \<open>
  C10. When the repository's create returns an error, its identifier is -1, and the
  usecase returns the zero-valued user (id 0, empty name, email and image URL) with that
  error: nothing of the input is returned.
\<close>

theorem failed_create_returns_zero_user:
  "snd (fst (UserRepository_CreateUser user s)) = Some err \<Longrightarrow>
   fst (fst (UserRepository_CreateUser user s)) = - 1 \<and>
   fst (UserUsecase_CreateUser user s) =
     (\<lparr>ID = 0, Name = [], Email = [], ImgURL = []\<rparr>, Some err)"
  by (auto simp add: UserUsecase_CreateUser_def UserRepository_CreateUser_def zero_User_def
      split: prod.splits option.splits sum.splits)

theorem failed_create_returns_zero_user_witness:
  "fst (UserRepository_CreateUser ana unreachable_store) = (- 1, Some ErrBadConn) \<and>
   fst (UserUsecase_CreateUser ana unreachable_store) =
     (\<lparr>ID = 0, Name = [], Email = [], ImgURL = []\<rparr>, Some ErrBadConn) \<and>
   fst (UserRepository_CreateUser ana failing_store) = (- 1, Some ErrBadConn) \<and>
   fst (UserUsecase_CreateUser ana failing_store) =
     (\<lparr>ID = 0, Name = [], Email = [], ImgURL = []\<rparr>, Some ErrBadConn)"
proof -
  have p: "snd (fst (UserRepository_CreateUser ana unreachable_store)) = Some ErrBadConn"
    by (simp add: repository_defs driver_defs unreachable_store_def fresh_store_def)
  have e: "snd (fst (UserRepository_CreateUser ana failing_store)) = Some ErrBadConn"
    by (simp add: repository_defs driver_defs failing_store_def fresh_store_def)
  from failed_create_returns_zero_user [OF p] failed_create_returns_zero_user [OF e] p e
  show ?thesis
    by (simp add: prod_eq_iff)
qed

end
